theory Spec2Isabelle
  imports Complex_Main
begin

section \<open>Python values, strings and errors\<close>

text \<open>
  Text is modelled as a list of ASCII characters. The exceptions of the source are the
  values of \<open>error\<close>; a function that can raise returns \<open>error + 'a\<close>, with \<open>Inl\<close> for
  the exception.
\<close>

datatype error =
    ValueError string
  | KeyError string
  | AttributeError
  | TypeError
  | RecursionError
  | EOFError
  | IntegrityError
  | BindingError

text \<open>
  The values \<open>json.load\<close> produces: a dict is an association list read with \<open>map_of\<close>.
  Numbers are integers (a float behaves like an integer in everything modelled here: it is
  truthy unless zero and has no \<open>strip\<close>, \<open>lower\<close> or \<open>get\<close>).
\<close>

datatype json =
    JNull
  | JBool bool
  | JNum int
  | JStr string
  | JArr "json list"
  | JObj "(string \<times> json) list"

text \<open>Python truthiness, as \<open>if not text\<close> tests it.\<close>

fun truthy :: "json \<Rightarrow> bool" where
  "truthy JNull = False"
| "truthy (JBool b) = b"
| "truthy (JNum n) = (n \<noteq> 0)"
| "truthy (JStr s) = (s \<noteq> [])"
| "truthy (JArr xs) = (xs \<noteq> [])"
| "truthy (JObj kvs) = (kvs \<noteq> [])"

text \<open>\<open>d.get(key, default)\<close> on a dict.\<close>

definition dict_get :: "(string \<times> json) list \<Rightarrow> string \<Rightarrow> json \<Rightarrow> json" where
  "dict_get d k dflt = (case map_of d k of None \<Rightarrow> dflt | Some v \<Rightarrow> v)"

text \<open>\<open>str.isspace\<close> on one ASCII character: tab to carriage return, the four separators
  28 to 31, and the space.\<close>

definition py_isspace :: "char \<Rightarrow> bool" where
  "py_isspace c = (let n = (of_char c :: nat) in (9 \<le> n \<and> n \<le> 13) \<or> (28 \<le> n \<and> n \<le> 32))"

definition py_strip :: "string \<Rightarrow> string" where
  "py_strip s = rev (dropWhile py_isspace (rev (dropWhile py_isspace s)))"

definition is_upper :: "char \<Rightarrow> bool" where
  "is_upper c = (let n = (of_char c :: nat) in 65 \<le> n \<and> n \<le> 90)"

definition is_lower :: "char \<Rightarrow> bool" where
  "is_lower c = (let n = (of_char c :: nat) in 97 \<le> n \<and> n \<le> 122)"

definition is_digit :: "char \<Rightarrow> bool" where
  "is_digit c = (let n = (of_char c :: nat) in 48 \<le> n \<and> n \<le> 57)"

definition lower_char :: "char \<Rightarrow> char" where
  "lower_char c = (if is_upper c then char_of ((of_char c :: nat) + 32) else c)"

definition upper_char :: "char \<Rightarrow> char" where
  "upper_char c = (if is_lower c then char_of ((of_char c :: nat) - 32) else c)"

definition py_lower :: "string \<Rightarrow> string" where
  "py_lower s = map lower_char s"

text \<open>\<open>str.title\<close>: the first letter of every run of letters in upper case, the others in
  lower case. The flag says whether the previous character was a letter.\<close>

fun title_from :: "bool \<Rightarrow> string \<Rightarrow> string" where
  "title_from prev [] = []"
| "title_from prev (c # cs) =
     (if is_upper c \<or> is_lower c
      then (if prev then lower_char c else upper_char c) # title_from True cs
      else c # title_from False cs)"

definition py_title :: "string \<Rightarrow> string" where
  "py_title s = title_from False s"

text \<open>Methods that only a string has: on any other value Python raises AttributeError.\<close>

definition strip_value :: "json \<Rightarrow> error + string" where
  "strip_value v = (case v of JStr s \<Rightarrow> Inr (py_strip s) | _ \<Rightarrow> Inl AttributeError)"

definition lower_value :: "json \<Rightarrow> error + string" where
  "lower_value v = (case v of JStr s \<Rightarrow> Inr (py_lower s) | _ \<Rightarrow> Inl AttributeError)"

subsection \<open>Decimal text\<close>

definition digit_char :: "nat \<Rightarrow> char" where
  "digit_char d = char_of (48 + d)"

fun decimal :: "nat \<Rightarrow> string" where
  "decimal n = (if n < 10 then [digit_char n] else decimal (n div 10) @ [digit_char (n mod 10)])"

definition str_int :: "int \<Rightarrow> string" where
  "str_int i = (if i < 0 then CHR ''-'' # decimal (nat (- i)) else decimal (nat i))"

definition zero_pad :: "nat \<Rightarrow> nat \<Rightarrow> string" where
  "zero_pad w n = replicate (w - length (decimal n)) CHR ''0'' @ decimal n"

text \<open>The value of a run of decimal digits.\<close>

definition digit_value :: "char \<Rightarrow> nat" where
  "digit_value c = (of_char c :: nat) - 48"

definition number_of :: "string \<Rightarrow> nat" where
  "number_of s = foldl (\<lambda>acc c. 10 * acc + digit_value c) 0 s"

subsection \<open>The library functions the source calls\<close>

text \<open>
  \<open>hashlib.sha256(s.encode('utf-8')).hexdigest()\<close> and the \<open>repr\<close> of a list or a dict
  are library code: they are parameters of the model.
\<close>

record pylib =
  sha256_hexdigest :: "string \<Rightarrow> string"
  repr_container :: "json \<Rightarrow> string"

text \<open>\<open>str(v)\<close>, as the hash and the f-strings apply it.\<close>

definition py_str :: "pylib \<Rightarrow> json \<Rightarrow> string" where
  "py_str L v =
     (case v of
        JNull \<Rightarrow> ''None''
      | JBool b \<Rightarrow> (if b then ''True'' else ''False'')
      | JNum n \<Rightarrow> str_int n
      | JStr s \<Rightarrow> s
      | _ \<Rightarrow> repr_container L v)"

section \<open>Dates and times\<close>

record datetime =
  year :: nat
  month :: nat
  day :: nat
  hour :: nat
  minute :: nat
  second :: nat
  microsecond :: nat

definition is_leap :: "nat \<Rightarrow> bool" where
  "is_leap y = (y mod 4 = 0 \<and> (y mod 100 \<noteq> 0 \<or> y mod 400 = 0))"

definition days_in_month :: "nat \<Rightarrow> nat \<Rightarrow> nat" where
  "days_in_month y m =
     (if m = 2 then (if is_leap y then 29 else 28)
      else if m = 4 \<or> m = 6 \<or> m = 9 \<or> m = 11 then 30 else 31)"

definition days_before_year :: "nat \<Rightarrow> nat" where
  "days_before_year y =
     (let p = y - 1 in p * 365 + p div 4 - p div 100 + p div 400)"

definition days_before_month :: "nat \<Rightarrow> nat \<Rightarrow> nat" where
  "days_before_month y m = sum_list (map (days_in_month y) [1..<m])"

text \<open>\<open>date.toordinal\<close>: day 1 is 0001-01-01.\<close>

definition toordinal :: "datetime \<Rightarrow> nat" where
  "toordinal dt = days_before_year (year dt) + days_before_month (year dt) (month dt) + day dt"

definition microseconds_of :: "datetime \<Rightarrow> int" where
  "microseconds_of dt =
     (((int (toordinal dt) * 24 + int (hour dt)) * 60 + int (minute dt)) * 60
        + int (second dt)) * 1000000 + int (microsecond dt)"

text \<open>\<open>(a - b).days\<close>: a timedelta is normalised with seconds and microseconds
  non-negative, so its days are the floor of the difference.\<close>

definition delta_days :: "datetime \<Rightarrow> datetime \<Rightarrow> int" where
  "delta_days a b = (microseconds_of a - microseconds_of b) div 86400000000"

text \<open>
  \<open>datetime.strptime(s, "%Y-%m-%d")\<close>. The format is the regular expression
  \<open>(\d\d\d\d)-(1[0-2]|0[1-9]|[1-9])-(3[01]|[12]\d|0[1-9]|[1-9]| [1-9])\<close>, which must
  cover the whole string; then the date must exist. Every failure is a ValueError; an
  argument that is not a string is a TypeError.
\<close>

fun split_on :: "char \<Rightarrow> string \<Rightarrow> string list" where
  "split_on sep [] = [] # []"
| "split_on sep (c # cs) =
     (if c = sep then [] # split_on sep cs
      else (case split_on sep cs of [] \<Rightarrow> [c] # [] | p # ps \<Rightarrow> (c # p) # ps))"

definition year_field :: "string \<Rightarrow> bool" where
  "year_field s = (length s = 4 \<and> list_all is_digit s)"

definition month_field :: "string \<Rightarrow> bool" where
  "month_field s =
     (case s of
        [a] \<Rightarrow> is_digit a \<and> a \<noteq> CHR ''0''
      | [a, b] \<Rightarrow> (a = CHR ''1'' \<and> b \<in> set ''012'') \<or> (a = CHR ''0'' \<and> is_digit b \<and> b \<noteq> CHR ''0'')
      | _ \<Rightarrow> False)"

definition day_field :: "string \<Rightarrow> bool" where
  "day_field s =
     (case s of
        [a] \<Rightarrow> is_digit a \<and> a \<noteq> CHR ''0''
      | [a, b] \<Rightarrow> (a = CHR ''3'' \<and> b \<in> set ''01'') \<or> (a \<in> set ''12'' \<and> is_digit b)
                 \<or> (a \<in> set ''0 '' \<and> is_digit b \<and> b \<noteq> CHR ''0'')
      | _ \<Rightarrow> False)"

definition strptime_error :: error where
  "strptime_error = ValueError ''time data does not match format %Y-%m-%d''"

definition strptime :: "json \<Rightarrow> error + datetime" where
  "strptime v =
     (case v of
        JStr s \<Rightarrow>
          (case split_on CHR ''-'' s of
             [ys, ms, ds] \<Rightarrow>
               if year_field ys \<and> month_field ms \<and> day_field ds then
                 (let y = number_of ys; m = number_of ms;
                      d = number_of (filter is_digit ds)
                  in if 1 \<le> y \<and> d \<le> days_in_month y m
                     then Inr \<lparr>year = y, month = m, day = d, hour = 0, minute = 0,
                               second = 0, microsecond = 0\<rparr>
                     else Inl strptime_error)
               else Inl strptime_error
           | _ \<Rightarrow> Inl strptime_error)
      | _ \<Rightarrow> Inl TypeError)"

text \<open>\<open>isoformat()\<close> and \<open>strftime("%Y-%m-%d %H:%M")\<close>.\<close>

definition isoformat :: "datetime \<Rightarrow> string" where
  "isoformat dt =
     zero_pad 4 (year dt) @ ''-'' @ zero_pad 2 (month dt) @ ''-'' @ zero_pad 2 (day dt)
     @ ''T'' @ zero_pad 2 (hour dt) @ '':'' @ zero_pad 2 (minute dt) @ '':''
     @ zero_pad 2 (second dt)
     @ (if microsecond dt = 0 then [] else ''.'' @ zero_pad 6 (microsecond dt))"

definition strftime_minutes :: "datetime \<Rightarrow> string" where
  "strftime_minutes dt =
     zero_pad 4 (year dt) @ ''-'' @ zero_pad 2 (month dt) @ ''-'' @ zero_pad 2 (day dt)
     @ '' '' @ zero_pad 2 (hour dt) @ '':'' @ zero_pad 2 (minute dt)"

section \<open>The record model (HomeTask10.py)\<close>

text \<open>
  The three subclasses of \<open>FeedRecord\<close>, each with the attributes its \<open>__init__\<close>
  sets. The attribute \<open>text\<close> is the selector \<open>rec_text\<close>; it is always a string,
  since \<open>__init__\<close> strips it. The other attributes hold whatever value the caller
  passed.
\<close>

datatype feed_record =
    NewsRecord (rec_text: string) (timestamp: datetime) (city: json)
  | PrivateAdRecord (rec_text: string) (timestamp: datetime) (expiration_date_str: json)
      (expiration_date: "datetime option") (days_left: int)
  | WeatherAlertRecord (rec_text: string) (timestamp: datetime) (severity: json)
      (location: json) (alert_id: string)

text \<open>
  The constructors. \<open>now\<close> is the reading of \<open>datetime.now()\<close>, \<open>rnd\<close> the four
  characters \<open>random.choices\<close> draws for the alert identifier.
\<close>

definition NewsRecord_init :: "datetime \<Rightarrow> json \<Rightarrow> json \<Rightarrow> error + feed_record" where
  "NewsRecord_init now txt cty =
     (case strip_value txt of Inl e \<Rightarrow> Inl e | Inr t \<Rightarrow> Inr (NewsRecord t now cty))"

definition PrivateAdRecord_init :: "datetime \<Rightarrow> json \<Rightarrow> json \<Rightarrow> error + feed_record" where
  "PrivateAdRecord_init now txt expiry =
     (case strip_value txt of Inl e \<Rightarrow> Inl e
      | Inr t \<Rightarrow> Inr (PrivateAdRecord t now expiry None 0))"

definition generate_alert_id :: "string \<Rightarrow> string" where
  "generate_alert_id rnd = ''WA-'' @ rnd"

definition WeatherAlertRecord_init ::
  "datetime \<Rightarrow> string \<Rightarrow> json \<Rightarrow> json \<Rightarrow> json \<Rightarrow> error + feed_record" where
  "WeatherAlertRecord_init now rnd txt sev loc =
     (case strip_value txt of Inl e \<Rightarrow> Inl e
      | Inr t \<Rightarrow> Inr (WeatherAlertRecord t now sev loc (generate_alert_id rnd)))"

definition get_record_type_name :: "feed_record \<Rightarrow> string" where
  "get_record_type_name r =
     (case r of NewsRecord _ _ _ \<Rightarrow> ''News''
      | PrivateAdRecord _ _ _ _ _ \<Rightarrow> ''Private Ad''
      | WeatherAlertRecord _ _ _ _ _ \<Rightarrow> ''Weather Alert'')"

definition get_duplicate_check_fields :: "feed_record \<Rightarrow> string list" where
  "get_duplicate_check_fields r =
     (case r of NewsRecord _ _ _ \<Rightarrow> [''text'', ''city'']
      | PrivateAdRecord _ _ _ _ _ \<Rightarrow> [''text'', ''expiration_date'']
      | WeatherAlertRecord _ _ _ _ _ \<Rightarrow> [''text'', ''severity'', ''location''])"

subsection \<open>Content hash and database data\<close>

text \<open>
  The first lines of \<open>PrivateAdRecord.get_database_data\<close>: parse the expiration date if
  that has not been done yet. A ValueError of \<open>strptime\<close> is swallowed, any other
  exception leaves the method.
\<close>

definition ensure_expiration_parsed :: "datetime \<Rightarrow> feed_record \<Rightarrow> error + feed_record" where
  "ensure_expiration_parsed now r =
     (case r of
        PrivateAdRecord t ts es None dl \<Rightarrow>
          if truthy es then
            (case strptime es of
               Inr dt \<Rightarrow> Inr (PrivateAdRecord t ts es (Some dt) (delta_days dt now))
             | Inl (ValueError _) \<Rightarrow> Inr r
             | Inl e \<Rightarrow> Inl e)
          else Inr r
      | _ \<Rightarrow> Inr r)"

text \<open>The dict \<open>get_database_data\<close> returns, given the value of its last entry.\<close>

definition database_dict :: "feed_record \<Rightarrow> string \<Rightarrow> (string \<times> json) list" where
  "database_dict r h =
     (case r of
        NewsRecord t ts c \<Rightarrow>
          [(''text'', JStr t), (''city'', c), (''timestamp'', JStr (isoformat ts)),
           (''content_hash'', JStr h)]
      | PrivateAdRecord t ts es ed dl \<Rightarrow>
          [(''text'', JStr t), (''expiration_date'', es), (''days_left'', JNum dl),
           (''timestamp'', JStr (isoformat ts)), (''content_hash'', JStr h)]
      | WeatherAlertRecord t ts sv lc aid \<Rightarrow>
          [(''text'', JStr t), (''severity'', sv), (''location'', lc),
           (''alert_id'', JStr aid), (''timestamp'', JStr (isoformat ts)),
           (''content_hash'', JStr h)])"

text \<open>The loop of \<open>generate_content_hash\<close> over the check fields.\<close>

fun hash_content :: "pylib \<Rightarrow> (string \<times> json) list \<Rightarrow> string list \<Rightarrow> string" where
  "hash_content L db_data [] = []"
| "hash_content L db_data (field # rest) =
     (case map_of db_data field of
        Some v \<Rightarrow> py_str L v @ hash_content L db_data rest
      | None \<Rightarrow> hash_content L db_data rest)"

text \<open>
  \<open>generate_content_hash\<close> calls \<open>get_database_data\<close>, and every \<open>get_database_data\<close>
  calls \<open>generate_content_hash\<close> for the entry \<open>content_hash\<close> of its dict. The
  argument \<open>depth\<close> is the number of stack frames the interpreter still allows (its
  recursion limit): a call with none left raises RecursionError. \<open>now\<close> is the reading
  of \<open>datetime.now()\<close>. Both functions return the record as the call leaves it, since
  \<open>PrivateAdRecord.get_database_data\<close> assigns \<open>expiration_date\<close> and \<open>days_left\<close>
  before it builds the dict.
\<close>

fun generate_content_hash ::
    "pylib \<Rightarrow> datetime \<Rightarrow> nat \<Rightarrow> feed_record \<Rightarrow> feed_record \<times> (error + string)"
  and get_database_data ::
    "pylib \<Rightarrow> datetime \<Rightarrow> nat \<Rightarrow> feed_record \<Rightarrow> feed_record \<times> (error + (string \<times> json) list)"
where
  "generate_content_hash L now 0 r = (r, Inl RecursionError)"
| "generate_content_hash L now (Suc depth) r =
     (let check_fields = get_duplicate_check_fields r in
      case get_database_data L now depth r of
        (r', Inl e) \<Rightarrow> (r', Inl e)
      | (r', Inr db_data) \<Rightarrow>
          (r', Inr (sha256_hexdigest L (hash_content L db_data check_fields))))"
| "get_database_data L now 0 r = (r, Inl RecursionError)"
| "get_database_data L now (Suc depth) r =
     (case ensure_expiration_parsed now r of
        Inl e \<Rightarrow> (r, Inl e)
      | Inr r1 \<Rightarrow>
          (case generate_content_hash L now depth r1 of
             (r', Inl e) \<Rightarrow> (r', Inl e)
           | (r', Inr h) \<Rightarrow> (r', Inr (database_dict r' h))))"

subsection \<open>Decoding from JSON data\<close>

text \<open>
  \<open>data.get\<close> exists on a dict only: any other value raises AttributeError. The
  emptiness tests are applied to the values as they come, before \<open>__init__\<close> strips the
  text.
\<close>

definition NewsRecord_from_json_data :: "datetime \<Rightarrow> json \<Rightarrow> error + feed_record" where
  "NewsRecord_from_json_data now data =
     (case data of
        JObj d \<Rightarrow>
          (let txt = dict_get d ''text'' (JStr []);
               cty = dict_get d ''city'' (JStr [])
           in if \<not> truthy txt then Inl (ValueError ''News record requires 'text' field'')
              else if \<not> truthy cty then Inl (ValueError ''News record requires 'city' field'')
              else NewsRecord_init now txt cty)
      | _ \<Rightarrow> Inl AttributeError)"

definition PrivateAdRecord_from_json_data :: "datetime \<Rightarrow> json \<Rightarrow> error + feed_record" where
  "PrivateAdRecord_from_json_data now data =
     (case data of
        JObj d \<Rightarrow>
          (let txt = dict_get d ''text'' (JStr []);
               expiry = dict_get d ''expiration_date'' (JStr [])
           in if \<not> truthy txt
              then Inl (ValueError ''Private Ad record requires 'text' field'')
              else if \<not> truthy expiry
              then Inl (ValueError ''Private Ad record requires 'expiration_date' field'')
              else PrivateAdRecord_init now txt expiry)
      | _ \<Rightarrow> Inl AttributeError)"

definition WeatherAlertRecord_from_json_data ::
  "datetime \<Rightarrow> string \<Rightarrow> json \<Rightarrow> error + feed_record" where
  "WeatherAlertRecord_from_json_data now rnd data =
     (case data of
        JObj d \<Rightarrow>
          (let txt = dict_get d ''text'' (JStr []);
               sev = dict_get d ''severity'' (JStr []);
               loc = dict_get d ''location'' (JStr [])
           in if \<not> truthy txt
              then Inl (ValueError ''Weather Alert record requires 'text' field'')
              else if \<not> truthy sev
              then Inl (ValueError ''Weather Alert record requires 'severity' field'')
              else if \<not> truthy loc
              then Inl (ValueError ''Weather Alert record requires 'location' field'')
              else WeatherAlertRecord_init now rnd txt sev loc)
      | _ \<Rightarrow> Inl AttributeError)"

subsection \<open>Decoding from an XML element\<close>

text \<open>
  An element of \<open>xml.etree.ElementTree\<close>: tag, attributes, the text before the first
  child (None when there is none) and the children.
\<close>

datatype xml =
  Element (tag: string) (attrib: "(string \<times> string) list") (elem_text: "string option")
    (children: "xml list")

text \<open>\<open>element.find(name)\<close> and \<open>element.findall(name)\<close> with a plain tag name look at
  the direct children.\<close>

definition xml_find :: "xml \<Rightarrow> string \<Rightarrow> xml option" where
  "xml_find e nm = find (\<lambda>c. tag c = nm) (children e)"

definition xml_findall :: "xml \<Rightarrow> string \<Rightarrow> xml list" where
  "xml_findall e nm = filter (\<lambda>c. tag c = nm) (children e)"

definition xml_get :: "xml \<Rightarrow> string \<Rightarrow> string \<Rightarrow> string" where
  "xml_get e k dflt = (case map_of (attrib e) k of None \<Rightarrow> dflt | Some v \<Rightarrow> v)"

text \<open>The test \<open>elem is None or not elem.text\<close>: the text of the element when the test
  is false.\<close>

definition content_of :: "xml option \<Rightarrow> string option" where
  "content_of el =
     (case el of
        None \<Rightarrow> None
      | Some e \<Rightarrow> (case elem_text e of None \<Rightarrow> None
                   | Some t \<Rightarrow> if t = [] then None else Some t))"

definition NewsRecord_from_xml_element :: "datetime \<Rightarrow> xml \<Rightarrow> error + feed_record" where
  "NewsRecord_from_xml_element now element =
     (case content_of (xml_find element ''text'') of
        None \<Rightarrow> Inl (ValueError ''News record requires 'text' element with content'')
      | Some t \<Rightarrow>
          (case content_of (xml_find element ''city'') of
             None \<Rightarrow> Inl (ValueError ''News record requires 'city' element with content'')
           | Some c \<Rightarrow> NewsRecord_init now (JStr (py_strip t)) (JStr (py_strip c))))"

definition PrivateAdRecord_from_xml_element :: "datetime \<Rightarrow> xml \<Rightarrow> error + feed_record" where
  "PrivateAdRecord_from_xml_element now element =
     (case content_of (xml_find element ''text'') of
        None \<Rightarrow> Inl (ValueError ''Private Ad record requires 'text' element with content'')
      | Some t \<Rightarrow>
          (case content_of (xml_find element ''expiration_date'') of
             None \<Rightarrow>
               Inl (ValueError
                 ''Private Ad record requires 'expiration_date' element with content'')
           | Some x \<Rightarrow> PrivateAdRecord_init now (JStr (py_strip t)) (JStr (py_strip x))))"

definition WeatherAlertRecord_from_xml_element ::
  "datetime \<Rightarrow> string \<Rightarrow> xml \<Rightarrow> error + feed_record" where
  "WeatherAlertRecord_from_xml_element now rnd element =
     (case content_of (xml_find element ''text'') of
        None \<Rightarrow> Inl (ValueError ''Weather Alert record requires 'text' element with content'')
      | Some t \<Rightarrow>
          (case content_of (xml_find element ''severity'') of
             None \<Rightarrow>
               Inl (ValueError ''Weather Alert record requires 'severity' element with content'')
           | Some s \<Rightarrow>
               (case content_of (xml_find element ''location'') of
                  None \<Rightarrow>
                    Inl (ValueError
                      ''Weather Alert record requires 'location' element with content'')
                | Some l \<Rightarrow>
                    WeatherAlertRecord_init now rnd (JStr (py_strip t)) (JStr (py_strip s))
                      (JStr (py_strip l)))))"

section \<open>The parsers\<close>

text \<open>The dict \<open>record_type_mapping\<close> of both processors, from tag to record class.\<close>

datatype record_class = News | PrivateAd | WeatherAlert

definition record_type_mapping :: "string \<Rightarrow> record_class option" where
  "record_type_mapping t =
     (if t = ''news'' then Some News
      else if t = ''private_ad'' then Some PrivateAd
      else if t = ''weather_alert'' then Some WeatherAlert
      else None)"

definition from_json_data ::
  "record_class \<Rightarrow> datetime \<times> string \<Rightarrow> json \<Rightarrow> error + feed_record" where
  "from_json_data cls env data =
     (case cls of
        News \<Rightarrow> NewsRecord_from_json_data (fst env) data
      | PrivateAd \<Rightarrow> PrivateAdRecord_from_json_data (fst env) data
      | WeatherAlert \<Rightarrow> WeatherAlertRecord_from_json_data (fst env) (snd env) data)"

definition from_xml_element ::
  "record_class \<Rightarrow> datetime \<times> string \<Rightarrow> xml \<Rightarrow> error + feed_record" where
  "from_xml_element cls env element =
     (case cls of
        News \<Rightarrow> NewsRecord_from_xml_element (fst env) element
      | PrivateAd \<Rightarrow> PrivateAdRecord_from_xml_element (fst env) element
      | WeatherAlert \<Rightarrow> WeatherAlertRecord_from_xml_element (fst env) (snd env) element)"

text \<open>
  What the parsers print for each entry: its number (from 1) with the type processed, or
  with the exception caught. The single-record format prints no number.
\<close>

datatype report =
    Processed nat string
  | ProcessingError nat error
  | ProcessedSingle string
  | ProcessingErrorSingle error

text \<open>
  The body of the \<open>try\<close> for one entry of the JSON input. \<open>env\<close> is the clock reading
  and the random draw that the construction of this entry sees.
\<close>

definition json_entry :: "datetime \<times> string \<Rightarrow> json \<Rightarrow> error + (string \<times> feed_record)" where
  "json_entry env record_info =
     (case record_info of
        JObj d \<Rightarrow>
          (case lower_value (dict_get d ''type'' (JStr [])) of
             Inl e \<Rightarrow> Inl e
           | Inr record_type \<Rightarrow>
               (let record_data = dict_get d ''data'' (JObj []) in
                case record_type_mapping record_type of
                  None \<Rightarrow> Inl (KeyError record_type)
                | Some cls \<Rightarrow>
                    (case from_json_data cls env record_data of
                       Inl e \<Rightarrow> Inl e
                     | Inr r \<Rightarrow> Inr (record_type, r))))
      | _ \<Rightarrow> Inl AttributeError)"

definition xml_entry :: "datetime \<times> string \<Rightarrow> xml \<Rightarrow> error + (string \<times> feed_record)" where
  "xml_entry env record_element =
     (let record_type = py_lower (xml_get record_element ''type'' []) in
      case record_type_mapping record_type of
        None \<Rightarrow> Inl (KeyError record_type)
      | Some cls \<Rightarrow>
          (case from_xml_element cls env record_element of
             Inl e \<Rightarrow> Inl e
           | Inr r \<Rightarrow> Inr (record_type, r)))"

text \<open>
  The \<open>for\<close> loop over the numbered entries, with its \<open>try\<close> and \<open>except Exception\<close>:
  an entry that raises is reported and the loop goes on. \<open>envs i\<close> is the environment of
  entry \<open>i\<close>.
\<close>

fun entries_loop ::
  "((datetime \<times> string) \<Rightarrow> 'a \<Rightarrow> error + (string \<times> feed_record)) \<Rightarrow>
   (nat \<Rightarrow> datetime \<times> string) \<Rightarrow> nat \<Rightarrow> 'a list \<Rightarrow> feed_record list \<times> report list" where
  "entries_loop entry envs i [] = ([], [])"
| "entries_loop entry envs i (x # xs) =
     (let (records, reports) = entries_loop entry envs (Suc i) xs in
      case entry (envs i) x of
        Inl e \<Rightarrow> (records, ProcessingError i e # reports)
      | Inr (record_type, r) \<Rightarrow> (r # records, Processed i record_type # reports))"

text \<open>What \<open>len\<close> and \<open>enumerate\<close> see in \<open>json_data['records']\<close>: the elements of a
  list, the keys of a dict, the characters of a string; any other value has no \<open>len\<close>.\<close>

definition py_iter :: "json \<Rightarrow> error + json list" where
  "py_iter v =
     (case v of
        JArr xs \<Rightarrow> Inr xs
      | JObj kvs \<Rightarrow> Inr (map (JStr \<circ> fst) kvs)
      | JStr s \<Rightarrow> Inr (map (\<lambda>c. JStr [c]) s)
      | _ \<Rightarrow> Inl TypeError)"

definition single_entry ::
  "(error + (string \<times> feed_record)) \<Rightarrow> feed_record list \<times> report list" where
  "single_entry res =
     (case res of
        Inl e \<Rightarrow> ([], [ProcessingErrorSingle e])
      | Inr (record_type, r) \<Rightarrow> ([r], [ProcessedSingle record_type]))"

definition parse_json_records ::
  "(nat \<Rightarrow> datetime \<times> string) \<Rightarrow> (string \<times> json) list \<Rightarrow>
   error + (feed_record list \<times> report list)" where
  "parse_json_records envs json_data =
     (case map_of json_data ''records'' of
        Some rs \<Rightarrow>
          (case py_iter rs of
             Inl e \<Rightarrow> Inl e
           | Inr items \<Rightarrow> Inr (entries_loop json_entry envs 1 items))
      | None \<Rightarrow>
          if map_of json_data ''type'' \<noteq> None \<and> map_of json_data ''data'' \<noteq> None
          then Inr (single_entry (json_entry (envs 1) (JObj json_data)))
          else Inl (ValueError
            (''Invalid JSON format. Expected 'records' array or single record with 'type' and 'data''
                @ [CHR 0x27])))"

definition parse_xml_records ::
  "(nat \<Rightarrow> datetime \<times> string) \<Rightarrow> xml \<Rightarrow> error + (feed_record list \<times> report list)" where
  "parse_xml_records envs root_elem =
     (if tag root_elem = ''records''
      then Inr (entries_loop xml_entry envs 1 (xml_findall root_elem ''record''))
      else if tag root_elem = ''record''
      then Inr (single_entry (xml_entry (envs 1) root_elem))
      else Inl (ValueError (''Invalid XML format. Expected root element 'records' or 'record''
                @ [CHR 0x27])))"

section \<open>Rendering a record for the feed file\<close>

text \<open>
  \<open>input()\<close> reads the next line of the standard input, a list of lines here, and
  raises EOFError when none is left. Each prompt loop returns the attribute as its last
  assignment left it and the lines that remain.
\<close>

fun expiration_prompt_loop ::
  "datetime \<Rightarrow> json \<Rightarrow> string list \<Rightarrow> (error + datetime \<times> int) \<times> json \<times> string list" where
  "expiration_prompt_loop now es [] = (Inl EOFError, es, [])"
| "expiration_prompt_loop now es (l # ls) =
     (let s = JStr (py_strip l) in
      case strptime s of
        Inr dt \<Rightarrow> (Inr (dt, delta_days dt now), s, ls)
      | Inl (ValueError _) \<Rightarrow> expiration_prompt_loop now s ls
      | Inl e \<Rightarrow> (Inl e, s, ls))"

definition severity_options :: "string list" where
  "severity_options = [''Low'', ''Medium'', ''High'', ''Critical'']"

fun severity_prompt_loop :: "json \<Rightarrow> string list \<Rightarrow> error option \<times> json \<times> string list" where
  "severity_prompt_loop sev [] = (Some EOFError, sev, [])"
| "severity_prompt_loop sev (l # ls) =
     (let s = py_title (py_strip l) in
      if s \<in> set severity_options then (None, JStr s, ls)
      else severity_prompt_loop (JStr s) ls)"

fun nonempty_prompt_loop :: "json \<Rightarrow> string list \<Rightarrow> error option \<times> json \<times> string list" where
  "nonempty_prompt_loop cur [] = (Some EOFError, cur, [])"
| "nonempty_prompt_loop cur (l # ls) =
     (let s = py_strip l in
      if s \<noteq> [] then (None, JStr s, ls) else nonempty_prompt_loop (JStr s) ls)"

text \<open>\<open>get_user_input\<close> of the three classes: the result is the exception raised, if
  any, the record and the remaining input.\<close>

definition get_user_input ::
  "pylib \<Rightarrow> datetime \<Rightarrow> string list \<Rightarrow> feed_record \<Rightarrow> error option \<times> feed_record \<times> string list"
where
  "get_user_input L now inp r =
     (case r of
        NewsRecord t ts c \<Rightarrow>
          if \<not> truthy c then
            (case nonempty_prompt_loop c inp of (e, c', inp') \<Rightarrow> (e, NewsRecord t ts c', inp'))
          else (None, r, inp)
      | PrivateAdRecord t ts es ed dl \<Rightarrow>
          if \<not> truthy es then
            (case expiration_prompt_loop now es inp of
               (Inl e, es', inp') \<Rightarrow> (Some e, PrivateAdRecord t ts es' ed dl, inp')
             | (Inr (dt, n), es', inp') \<Rightarrow> (None, PrivateAdRecord t ts es' (Some dt) n, inp'))
          else
            (case strptime es of
               Inr dt \<Rightarrow> (None, PrivateAdRecord t ts es (Some dt) (delta_days dt now), inp)
             | Inl (ValueError _) \<Rightarrow>
                 (Some (ValueError (''Invalid expiration date format: '' @ py_str L es)), r, inp)
             | Inl e \<Rightarrow> (Some e, r, inp))
      | WeatherAlertRecord t ts sv lc aid \<Rightarrow>
          (case (if \<not> truthy sv then severity_prompt_loop sv inp else (None, sv, inp)) of
             (Some e, sv', inp') \<Rightarrow> (Some e, WeatherAlertRecord t ts sv' lc aid, inp')
           | (None, sv', inp') \<Rightarrow>
               (case (if \<not> truthy lc then nonempty_prompt_loop lc inp' else (None, lc, inp')) of
                  (e, lc', inp'') \<Rightarrow> (e, WeatherAlertRecord t ts sv' lc' aid, inp''))))"

definition newline :: string where
  "newline = [CHR 0x0A]"

text \<open>The text the f-strings of \<open>format_for_publication\<close> build from the attributes.\<close>

definition formatted_text :: "pylib \<Rightarrow> feed_record \<Rightarrow> string" where
  "formatted_text L r =
     (case r of
        NewsRecord t ts c \<Rightarrow>
          ''News -------------------------'' @ newline
          @ t @ newline
          @ py_str L c @ '', '' @ strftime_minutes ts @ newline @ newline
      | PrivateAdRecord t ts es ed dl \<Rightarrow>
          ''Private Ad -------------------'' @ newline
          @ t @ newline
          @ ''Actual until: '' @ py_str L es @ '', '' @ str_int dl @ '' days left''
          @ newline @ newline
      | WeatherAlertRecord t ts sv lc aid \<Rightarrow>
          ''Weather Alert ----------------'' @ newline
          @ ''Alert ID: '' @ aid @ newline
          @ ''Severity: '' @ py_str L sv @ newline
          @ t @ newline
          @ ''Location: '' @ py_str L lc @ '', '' @ strftime_minutes ts @ newline @ newline)"

text \<open>Whether \<open>format_for_publication\<close> calls \<open>get_user_input\<close> first.\<close>

definition needs_user_input :: "feed_record \<Rightarrow> bool" where
  "needs_user_input r =
     (case r of
        NewsRecord _ _ _ \<Rightarrow> False
      | PrivateAdRecord _ _ _ ed _ \<Rightarrow> ed = None
      | WeatherAlertRecord _ _ sv lc _ \<Rightarrow> \<not> truthy sv \<or> \<not> truthy lc)"

definition format_for_publication ::
  "pylib \<Rightarrow> datetime \<Rightarrow> string list \<Rightarrow> feed_record \<Rightarrow>
   (error + string) \<times> feed_record \<times> string list" where
  "format_for_publication L now inp r =
     (case (if needs_user_input r then get_user_input L now inp r else (None, r, inp)) of
        (Some e, r', inp') \<Rightarrow> (Inl e, r', inp')
      | (None, r', inp') \<Rightarrow> (Inr (formatted_text L r'), r', inp'))"

section \<open>The database manager\<close>

text \<open>
  One table per record class. A row is the dict \<open>save_record\<close> inserts; the columns the
  database fills in itself (\<open>id\<close>, \<open>created_at\<close>) are left out.
\<close>

datatype table = news_records | private_ad_records | weather_alert_records

type_synonym row = "(string \<times> json) list"

type_synonym database = "table \<Rightarrow> row list"

definition get_table_name_for_record :: "feed_record \<Rightarrow> table" where
  "get_table_name_for_record r =
     (case r of
        NewsRecord _ _ _ \<Rightarrow> news_records
      | PrivateAdRecord _ _ _ _ _ \<Rightarrow> private_ad_records
      | WeatherAlertRecord _ _ _ _ _ \<Rightarrow> weather_alert_records)"

text \<open>\<open>SELECT COUNT(*) FROM table WHERE content_hash = ?\<close>\<close>

definition count_content_hash :: "row list \<Rightarrow> string \<Rightarrow> nat" where
  "count_content_hash rows h = length (filter (\<lambda>rw. map_of rw ''content_hash'' = Some (JStr h)) rows)"

text \<open>
  \<open>check_duplicate\<close>: any exception of the hash computation is caught and answered with
  False. \<open>depth\<close> is the number of stack frames left for the calls it makes.
\<close>

definition check_duplicate ::
  "pylib \<Rightarrow> datetime \<Rightarrow> nat \<Rightarrow> database \<Rightarrow> feed_record \<Rightarrow> bool \<times> feed_record" where
  "check_duplicate L now depth db r =
     (let table_name = get_table_name_for_record r in
      case generate_content_hash L now depth r of
        (r', Inl e) \<Rightarrow> (False, r')
      | (r', Inr content_hash) \<Rightarrow> (0 < count_content_hash (db table_name) content_hash, r'))"

text \<open>
  The \<open>INSERT\<close> of \<open>save_record\<close>. sqlite3 binds None, numbers that fit 64 bits and
  strings; the schema declares every inserted column except \<open>days_left\<close> NOT NULL and
  \<open>content_hash\<close> UNIQUE.
\<close>

definition bindable :: "json \<Rightarrow> bool" where
  "bindable v =
     (case v of
        JArr _ \<Rightarrow> False
      | JObj _ \<Rightarrow> False
      | JNum n \<Rightarrow> - (2 ^ 63) \<le> n \<and> n < 2 ^ 63
      | _ \<Rightarrow> True)"

definition not_null_columns :: "table \<Rightarrow> string list" where
  "not_null_columns t =
     (case t of
        news_records \<Rightarrow> [''text'', ''city'', ''timestamp'', ''content_hash'']
      | private_ad_records \<Rightarrow> [''text'', ''expiration_date'', ''timestamp'', ''content_hash'']
      | weather_alert_records \<Rightarrow>
          [''text'', ''severity'', ''location'', ''alert_id'', ''timestamp'', ''content_hash''])"

definition sql_insert :: "database \<Rightarrow> table \<Rightarrow> row \<Rightarrow> error + database" where
  "sql_insert db t record_data =
     (if \<not> list_all (\<lambda>(k, v). bindable v) record_data then Inl BindingError
      else if list_ex (\<lambda>c. map_of record_data c = None \<or> map_of record_data c = Some JNull)
                (not_null_columns t)
      then Inl IntegrityError
      else if list_ex (\<lambda>rw. map_of rw ''content_hash'' = map_of record_data ''content_hash'')
                (db t)
      then Inl IntegrityError
      else Inr (db (t := db t @ [record_data])))"

text \<open>\<open>save_record\<close>: True when the row was inserted; a duplicate and every exception
  give False.\<close>

definition save_record ::
  "pylib \<Rightarrow> datetime \<Rightarrow> nat \<Rightarrow> database \<Rightarrow> feed_record \<Rightarrow> bool \<times> database \<times> feed_record" where
  "save_record L now depth db r =
     (case check_duplicate L now depth db r of
        (True, r1) \<Rightarrow> (False, db, r1)
      | (False, r1) \<Rightarrow>
          (let table_name = get_table_name_for_record r1 in
           case get_database_data L now depth r1 of
             (r2, Inl e) \<Rightarrow> (False, db, r2)
           | (r2, Inr record_data) \<Rightarrow>
               (case sql_insert db table_name record_data of
                  Inl e \<Rightarrow> (False, db, r2)
                | Inr db' \<Rightarrow> (True, db', r2))))"

section \<open>The feed manager\<close>

text \<open>What \<open>publish_record\<close> reads and writes: the database, the text of the feed file
  and the standard input.\<close>

record world =
  database :: database
  news_feed_file :: string
  stdin :: "string list"

definition append_to_file :: "world \<Rightarrow> string \<Rightarrow> world" where
  "append_to_file w content = w\<lparr>news_feed_file := news_feed_file w @ content\<rparr>"

text \<open>
  \<open>publish_record\<close> returns its boolean, the world and the record as it leaves them.
\<close>

definition publish_record ::
  "pylib \<Rightarrow> datetime \<Rightarrow> nat \<Rightarrow> world \<Rightarrow> feed_record \<Rightarrow> bool \<Rightarrow> bool \<times> world \<times> feed_record" where
  "publish_record L now depth w r save_to_database =
     (case (if save_to_database
            then (case save_record L now depth (database w) r of
                    (db_success, db', r1) \<Rightarrow> (db_success, w\<lparr>database := db'\<rparr>, r1))
            else (True, w, r)) of
        (False, w1, r1) \<Rightarrow> (False, w1, r1)
      | (True, w1, r1) \<Rightarrow>
          (case format_for_publication L now (stdin w1) r1 of
             (Inl e, r2, inp) \<Rightarrow> (False, w1\<lparr>stdin := inp\<rparr>, r2)
           | (Inr formatted_content, r2, inp) \<Rightarrow>
               (True, append_to_file (w1\<lparr>stdin := inp\<rparr>) formatted_content, r2)))"

section \<open>The city coordinate table (Final.py)\<close>

text \<open>
  The table \<open>cities\<close>: its rows in rowid order and the autoincrement counter. A
  coordinate is a real number (the comparisons of the source are exact on floats; NaN is
  outside the model).
\<close>

record city_row =
  row_id :: nat
  name :: string
  latitude :: real
  longitude :: real
  country :: string

record cities_db =
  cities :: "city_row list"
  sequence :: nat

text \<open>The SQL function \<open>LOWER\<close> folds the ASCII letters.\<close>

definition sql_lower :: "string \<Rightarrow> string" where
  "sql_lower s = map lower_char s"

text \<open>\<open>SELECT latitude, longitude FROM cities WHERE LOWER(name) = LOWER(?)\<close> with
  \<open>fetchone\<close>: the first matching row.\<close>

definition get_city_coordinates :: "cities_db \<Rightarrow> string \<Rightarrow> (real \<times> real) option" where
  "get_city_coordinates db city_name =
     (case find (\<lambda>rw. sql_lower (name rw) = sql_lower city_name) (cities db) of
        Some result \<Rightarrow> Some (latitude result, longitude result)
      | None \<Rightarrow> None)"

text \<open>\<open>INSERT OR REPLACE\<close>: the column \<open>name\<close> is UNIQUE, so a row with the same name is
  deleted before the new row is added under the next rowid.\<close>

definition insert_or_replace ::
  "cities_db \<Rightarrow> string \<Rightarrow> real \<Rightarrow> real \<Rightarrow> string \<Rightarrow> cities_db" where
  "insert_or_replace db city_name lat lon ctry =
     \<lparr>cities = filter (\<lambda>rw. name rw \<noteq> city_name) (cities db)
        @ [\<lparr>row_id = Suc (sequence db), name = city_name, latitude = lat, longitude = lon,
             country = ctry\<rparr>],
      sequence = Suc (sequence db)\<rparr>"

definition save_city_coordinates ::
  "cities_db \<Rightarrow> string \<Rightarrow> real \<Rightarrow> real \<Rightarrow> string \<Rightarrow> bool \<times> cities_db" where
  "save_city_coordinates db city_name lat lon ctry =
     (if \<not> (- 90 \<le> lat \<and> lat \<le> 90) then (False, db)
      else if \<not> (- 180 \<le> lon \<and> lon \<le> 180) then (False, db)
      else (True, insert_or_replace db city_name lat lon ctry))"


section \<open>Properties\<close>

lemma strptime_error_cases:
  "strptime v = Inl e \<Longrightarrow> e = strptime_error \<or> e = TypeError"
  by (auto simp: strptime_def Let_def split: json.splits list.splits if_splits)

lemma ensure_expiration_parsed_error:
  "ensure_expiration_parsed now r = Inl e \<Longrightarrow> e = TypeError"
  by (auto simp: ensure_expiration_parsed_def strptime_error_def
        dest!: strptime_error_cases
        split: feed_record.splits option.splits if_splits sum.splits error.splits)

lemma hash_and_data_never_return:
  "(\<exists>r'. generate_content_hash L now depth r = (r', Inl RecursionError)
       \<or> generate_content_hash L now depth r = (r', Inl TypeError))
   \<and> (\<exists>r'. get_database_data L now depth r = (r', Inl RecursionError)
       \<or> get_database_data L now depth r = (r', Inl TypeError))"
proof (induction depth arbitrary: r)
  case 0
  show ?case by simp
next
  case (Suc depth)
  have data: "\<exists>r'. get_database_data L now (Suc depth) r = (r', Inl RecursionError)
       \<or> get_database_data L now (Suc depth) r = (r', Inl TypeError)"
  proof (cases "ensure_expiration_parsed now r")
    case (Inl e)
    then show ?thesis using ensure_expiration_parsed_error [OF Inl] by simp
  next
    case (Inr r1)
    from Suc [of r1] show ?thesis using Inr by auto
  qed
  have hash: "\<exists>r'. generate_content_hash L now (Suc depth) r = (r', Inl RecursionError)
       \<or> generate_content_hash L now (Suc depth) r = (r', Inl TypeError)"
    using Suc [of r] by auto
  from data hash show ?case by blast
qed

lemma ensure_expiration_parsed_idem:
  "ensure_expiration_parsed now r = Inr r1 \<Longrightarrow> ensure_expiration_parsed now' r1 = Inr r1"
  by (auto simp: ensure_expiration_parsed_def
        split: feed_record.splits option.splits if_splits sum.splits error.splits)

lemma recursion_error_when_parsed:
  "ensure_expiration_parsed now r = Inr r \<Longrightarrow>
     generate_content_hash L now depth r = (r, Inl RecursionError)
     \<and> get_database_data L now depth r = (r, Inl RecursionError)"
  by (induction depth) simp_all

lemma get_database_data_parses_first:
  "ensure_expiration_parsed now r = Inr r1 \<Longrightarrow>
     get_database_data L now (Suc depth) r = (r1, Inl RecursionError)"
  using recursion_error_when_parsed
    [OF ensure_expiration_parsed_idem, where L = L and depth = depth]
  by simp

lemma save_record_False_keeps_database:
  "save_record L now depth db r = (False, db', r') \<Longrightarrow> db' = db"
  by (auto simp: save_record_def Let_def split: prod.splits bool.splits sum.splits)

subsection \<open>The content hash\<close>

text \<open>
  Claim C1 (the fingerprint is a function of the variant's field subset: News text and
  city, PrivateAd text and expiration date, WeatherAlert text, severity and location).
  The source computes no fingerprint at all: \<open>generate_content_hash\<close> asks
  \<open>get_database_data\<close> for the dict, and \<open>get_database_data\<close> asks
  \<open>generate_content_hash\<close> for its entry \<open>content_hash\<close>. For the News record with
  text "Fire downtown" and city "Springfield", whatever its timestamp and however many
  stack frames are left, the call ends in RecursionError.
\<close>

theorem news_content_hash_raises:
  "snd (generate_content_hash L now depth
          (NewsRecord ''Fire downtown'' ts (JStr ''Springfield''))) = Inl RecursionError"
  using recursion_error_when_parsed
    [where r = "NewsRecord ''Fire downtown'' ts (JStr ''Springfield'')" and now = now
       and L = L and depth = depth]
  by (simp add: ensure_expiration_parsed_def)

text \<open>
  Claim C2 (computing the content hash terminates with a SHA-256 digest and raises
  nothing). In the source every call raises, for every record of every class and every
  recursion limit: RecursionError, or the TypeError of \<open>strptime\<close> when the expiration
  date of a private ad is not a string.
\<close>

theorem generate_content_hash_raises:
  "snd (generate_content_hash L now depth r) = Inl RecursionError
   \<or> snd (generate_content_hash L now depth r) = Inl TypeError"
  using hash_and_data_never_return [of L now depth r] by auto

subsection \<open>Publishing\<close>

lemma publish_news_record_returns_False:
  "publish_record L now depth w (NewsRecord t ts c) True = (False, w, NewsRecord t ts c)"
  using recursion_error_when_parsed
    [where r = "NewsRecord t ts c" and now = now and L = L and depth = depth]
  by (simp add: ensure_expiration_parsed_def publish_record_def save_record_def
        check_duplicate_def)

text \<open>
  Claim C3 (the same record published twice with persistence: published, then skipped,
  and one row in the table). In the source \<open>check_duplicate\<close> and \<open>save_record\<close> catch
  the RecursionError of the hash and answer False. Starting from empty tables, the first
  call of \<open>publish_record\<close> returns False, the second call, in the world the first
  one left, returns False too, and the News table is still empty.
\<close>

theorem publish_twice_stores_nothing:
  "fst (publish_record L now depth
          \<lparr>database = (\<lambda>t. []), news_feed_file = [], stdin = []\<rparr>
          (NewsRecord ''Fire downtown'' ts (JStr ''Springfield'')) True) = False
   \<and> fst (publish_record L now' depth'
          (fst (snd (publish_record L now depth
             \<lparr>database = (\<lambda>t. []), news_feed_file = [], stdin = []\<rparr>
             (NewsRecord ''Fire downtown'' ts (JStr ''Springfield'')) True)))
          (NewsRecord ''Fire downtown'' ts' (JStr ''Springfield'')) True) = False
   \<and> database (fst (snd (publish_record L now' depth'
          (fst (snd (publish_record L now depth
             \<lparr>database = (\<lambda>t. []), news_feed_file = [], stdin = []\<rparr>
             (NewsRecord ''Fire downtown'' ts (JStr ''Springfield'')) True)))
          (NewsRecord ''Fire downtown'' ts' (JStr ''Springfield'')) True))) news_records = []"
  by (simp add: publish_news_record_returns_False)

text \<open>
  Claim C5: whenever \<open>save_record\<close> returns False, \<open>publish_record\<close> called with
  \<open>save_to_database = True\<close> returns False and does nothing else: the feed file, the
  tables and the standard input are as before.
\<close>

theorem publish_record_skips_on_failed_save:
  assumes "fst (save_record L now depth (database w) r) = False"
  shows "\<exists>r'. publish_record L now depth w r True = (False, w, r')"
proof -
  obtain b db' r' where s: "save_record L now depth (database w) r = (b, db', r')"
    by (cases "save_record L now depth (database w) r") auto
  with assms have b: "b = False" by simp
  with s have "db' = database w" by (auto dest: save_record_False_keeps_database)
  with s b show ?thesis by (simp add: publish_record_def)
qed

theorem publish_record_skips_on_failed_save_witness:
  "fst (save_record \<lparr>sha256_hexdigest = (\<lambda>s. s), repr_container = (\<lambda>v. [])\<rparr>
          \<lparr>year = 2026, month = 11, day = 3, hour = 12, minute = 30, second = 5,
            microsecond = 0\<rparr>
          (Suc (Suc (Suc 0)))
          (database \<lparr>database = (\<lambda>t. []), news_feed_file = ''old'', stdin = []\<rparr>)
          (WeatherAlertRecord ''Storm''
             \<lparr>year = 2026, month = 11, day = 3, hour = 12, minute = 0, second = 0,
               microsecond = 0\<rparr>
             (JStr ''High'') (JStr ''Springfield'') ''WA-AB12'')) = False
   \<and> (\<exists>r'. publish_record \<lparr>sha256_hexdigest = (\<lambda>s. s), repr_container = (\<lambda>v. [])\<rparr>
          \<lparr>year = 2026, month = 11, day = 3, hour = 12, minute = 30, second = 5,
            microsecond = 0\<rparr>
          (Suc (Suc (Suc 0)))
          \<lparr>database = (\<lambda>t. []), news_feed_file = ''old'', stdin = []\<rparr>
          (WeatherAlertRecord ''Storm''
             \<lparr>year = 2026, month = 11, day = 3, hour = 12, minute = 0, second = 0,
               microsecond = 0\<rparr>
             (JStr ''High'') (JStr ''Springfield'') ''WA-AB12'') True
        = (False, \<lparr>database = (\<lambda>t. []), news_feed_file = ''old'', stdin = []\<rparr>, r'))"
proof -
  have h: "fst (save_record \<lparr>sha256_hexdigest = (\<lambda>s. s), repr_container = (\<lambda>v. [])\<rparr>
          \<lparr>year = 2026, month = 11, day = 3, hour = 12, minute = 30, second = 5,
            microsecond = 0\<rparr>
          (Suc (Suc (Suc 0)))
          (database \<lparr>database = (\<lambda>t. []), news_feed_file = ''old'', stdin = []\<rparr>)
          (WeatherAlertRecord ''Storm''
             \<lparr>year = 2026, month = 11, day = 3, hour = 12, minute = 0, second = 0,
               microsecond = 0\<rparr>
             (JStr ''High'') (JStr ''Springfield'') ''WA-AB12'')) = False"
    by (simp add: save_record_def check_duplicate_def ensure_expiration_parsed_def)
  from h publish_record_skips_on_failed_save [OF h] show ?thesis by blast
qed

subsection \<open>The decoders\<close>

text \<open>
  Claim C6 (every record the decoders accept has a text that is not empty after
  trimming). The decoders test the text for emptiness before it is stripped: a text of
  three spaces passes the test of \<open>from_json_data\<close> and of \<open>from_xml_element\<close>, and the
  record built has the empty text.
\<close>

theorem blank_text_is_accepted:
  "NewsRecord_from_json_data now (JObj [(''text'', JStr ''   ''), (''city'', JStr ''Paris'')])
     = Inr (NewsRecord [] now (JStr ''Paris''))
   \<and> NewsRecord_from_xml_element now
        (Element ''record'' [(''type'', ''news'')] None
           [Element ''text'' [] (Some ''   '') [], Element ''city'' [] (Some ''Paris'') []])
     = Inr (NewsRecord [] now (JStr ''Paris''))"
  by (simp add: NewsRecord_from_json_data_def NewsRecord_from_xml_element_def dict_get_def
        NewsRecord_init_def strip_value_def py_strip_def py_isspace_def xml_find_def
        content_of_def)

lemma upt_0_Suc_shift: "[0..<Suc n] = 0 # map Suc [0..<n]"
  by (simp add: upt_conv_Cons map_Suc_upt del: upt_Suc)

lemma entries_loop_outcomes:
  "entries_loop entry envs i xs =
     (map (\<lambda>j. snd (projr (entry (envs (i + j)) (xs ! j))))
        (filter (\<lambda>j. \<not> isl (entry (envs (i + j)) (xs ! j))) [0..<length xs]),
      map (\<lambda>j. case entry (envs (i + j)) (xs ! j) of
                 Inl e \<Rightarrow> ProcessingError (i + j) e
               | Inr p \<Rightarrow> Processed (i + j) (fst p)) [0..<length xs])"
proof (induction xs arbitrary: i)
  case Nil
  show ?case by simp
next
  case (Cons x xs)
  show ?case
    by (cases "entry (envs i) x")
       (simp_all add: Cons.IH [of "Suc i"] upt_0_Suc_shift filter_map o_def
          split: prod.splits del: upt_Suc cong: sum.case_cong)
qed

lemma filter_skip_one:
  assumes "k < n"
  shows "filter (\<lambda>j. j \<noteq> k) [0..<n] = [0..<k] @ [Suc k..<n]"
proof -
  from assms have "[0..<n] = [0..<k + (n - k)]"
    by simp
  also have "\<dots> = [0..<k] @ [k..<k + (n - k)]"
    by (rule upt_add_eq_append) simp
  also from assms have "[k..<k + (n - k)] = k # [Suc k..<n]"
    by (simp add: upt_conv_Cons)
  finally have "[0..<n] = [0..<k] @ k # [Suc k..<n]" .
  then show ?thesis
    by (auto simp: filter_empty_conv intro!: filter_True)
qed

lemma one_failure_in_loop:
  assumes k: "k < length xs"
    and bad: "entry (envs (i + k)) (xs ! k) = Inl e"
    and good: "\<forall>j<length xs. j \<noteq> k \<longrightarrow> (\<exists>p. entry (envs (i + j)) (xs ! j) = Inr p)"
  shows "entries_loop entry envs i xs =
     (map (\<lambda>j. snd (projr (entry (envs (i + j)) (xs ! j)))) ([0..<k] @ [Suc k..<length xs]),
      map (\<lambda>j. if j = k then ProcessingError (i + k) e
               else Processed (i + j) (fst (projr (entry (envs (i + j)) (xs ! j)))))
        [0..<length xs])"
proof -
  have "filter (\<lambda>j. \<not> isl (entry (envs (i + j)) (xs ! j))) [0..<length xs]
          = filter (\<lambda>j. j \<noteq> k) [0..<length xs]"
    using bad good by (intro filter_cong) auto
  also have "\<dots> = [0..<k] @ [Suc k..<length xs]"
    using k by (rule filter_skip_one)
  finally have recs: "filter (\<lambda>j. \<not> isl (entry (envs (i + j)) (xs ! j))) [0..<length xs]
          = [0..<k] @ [Suc k..<length xs]" .
  have reps: "map (\<lambda>j. case entry (envs (i + j)) (xs ! j) of
                 Inl e \<Rightarrow> ProcessingError (i + j) e
               | Inr p \<Rightarrow> Processed (i + j) (fst p)) [0..<length xs]
        = map (\<lambda>j. if j = k then ProcessingError (i + k) e
               else Processed (i + j) (fst (projr (entry (envs (i + j)) (xs ! j)))))
        [0..<length xs]"
    using bad good by (intro map_cong) auto
  show ?thesis
    unfolding entries_loop_outcomes recs reps ..
qed

subsection \<open>The parsers\<close>

text \<open>
  Claim C4: when exactly one entry of a collection, at index \<open>k\<close> (from 0), raises in
  validation or construction, the parser does not abort. It returns the records of the
  other \<open>N - 1\<close> entries in their order, reports the exception under the entry's
  number \<open>k + 1\<close>, and processes the entries after it. This holds for the list under
  \<open>records\<close> of the JSON input and for the \<open>record\<close> children of the XML root
  \<open>records\<close>.
\<close>

theorem one_bad_record_is_skipped:
  "(map_of json_data ''records'' = Some (JArr xs) \<and> k < length xs
      \<and> json_entry (envs (Suc k)) (xs ! k) = Inl e
      \<and> (\<forall>j<length xs. j \<noteq> k \<longrightarrow> (\<exists>p. json_entry (envs (Suc j)) (xs ! j) = Inr p))
    \<longrightarrow> (\<exists>records reports.
          parse_json_records envs json_data = Inr (records, reports)
          \<and> length records = length xs - 1
          \<and> records = map (\<lambda>j. snd (projr (json_entry (envs (Suc j)) (xs ! j))))
                        ([0..<k] @ [Suc k..<length xs])
          \<and> reports = map (\<lambda>j. if j = k then ProcessingError (Suc k) e
                   else Processed (Suc j) (fst (projr (json_entry (envs (Suc j)) (xs ! j)))))
                 [0..<length xs]))
   \<and> (tag root_elem = ''records'' \<and> xml_findall root_elem ''record'' = es \<and> m < length es
      \<and> xml_entry (envs (Suc m)) (es ! m) = Inl e'
      \<and> (\<forall>j<length es. j \<noteq> m \<longrightarrow> (\<exists>p. xml_entry (envs (Suc j)) (es ! j) = Inr p))
    \<longrightarrow> (\<exists>records reports.
          parse_xml_records envs root_elem = Inr (records, reports)
          \<and> length records = length es - 1
          \<and> records = map (\<lambda>j. snd (projr (xml_entry (envs (Suc j)) (es ! j))))
                        ([0..<m] @ [Suc m..<length es])
          \<and> reports = map (\<lambda>j. if j = m then ProcessingError (Suc m) e'
                   else Processed (Suc j) (fst (projr (xml_entry (envs (Suc j)) (es ! j)))))
                 [0..<length es]))"
proof (intro conjI impI)
  assume h: "map_of json_data ''records'' = Some (JArr xs) \<and> k < length xs
      \<and> json_entry (envs (Suc k)) (xs ! k) = Inl e
      \<and> (\<forall>j<length xs. j \<noteq> k \<longrightarrow> (\<exists>p. json_entry (envs (Suc j)) (xs ! j) = Inr p))"
  then have loop: "entries_loop json_entry envs 1 xs =
     (map (\<lambda>j. snd (projr (json_entry (envs (1 + j)) (xs ! j)))) ([0..<k] @ [Suc k..<length xs]),
      map (\<lambda>j. if j = k then ProcessingError (1 + k) e
               else Processed (1 + j) (fst (projr (json_entry (envs (1 + j)) (xs ! j)))))
        [0..<length xs])"
    by (intro one_failure_in_loop) simp_all
  from h have "length ([0..<k] @ [Suc k..<length xs]) = length xs - 1" by auto
  with h loop show "\<exists>records reports.
          parse_json_records envs json_data = Inr (records, reports)
          \<and> length records = length xs - 1
          \<and> records = map (\<lambda>j. snd (projr (json_entry (envs (Suc j)) (xs ! j))))
                        ([0..<k] @ [Suc k..<length xs])
          \<and> reports = map (\<lambda>j. if j = k then ProcessingError (Suc k) e
                   else Processed (Suc j) (fst (projr (json_entry (envs (Suc j)) (xs ! j)))))
                 [0..<length xs]"
    by (simp add: parse_json_records_def py_iter_def)
next
  assume h: "tag root_elem = ''records'' \<and> xml_findall root_elem ''record'' = es \<and> m < length es
      \<and> xml_entry (envs (Suc m)) (es ! m) = Inl e'
      \<and> (\<forall>j<length es. j \<noteq> m \<longrightarrow> (\<exists>p. xml_entry (envs (Suc j)) (es ! j) = Inr p))"
  then have loop: "entries_loop xml_entry envs 1 es =
     (map (\<lambda>j. snd (projr (xml_entry (envs (1 + j)) (es ! j)))) ([0..<m] @ [Suc m..<length es]),
      map (\<lambda>j. if j = m then ProcessingError (1 + m) e'
               else Processed (1 + j) (fst (projr (xml_entry (envs (1 + j)) (es ! j)))))
        [0..<length es])"
    by (intro one_failure_in_loop) simp_all
  from h have "length ([0..<m] @ [Suc m..<length es]) = length es - 1" by auto
  with h loop show "\<exists>records reports.
          parse_xml_records envs root_elem = Inr (records, reports)
          \<and> length records = length es - 1
          \<and> records = map (\<lambda>j. snd (projr (xml_entry (envs (Suc j)) (es ! j))))
                        ([0..<m] @ [Suc m..<length es])
          \<and> reports = map (\<lambda>j. if j = m then ProcessingError (Suc m) e'
                   else Processed (Suc j) (fst (projr (xml_entry (envs (Suc j)) (es ! j)))))
                 [0..<length es]"
    by (simp add: parse_xml_records_def)
qed

theorem one_bad_record_is_skipped_witness:
  "parse_json_records
      (\<lambda>i. (\<lparr>year = 2026, month = 11, day = 3, hour = 12, minute = 30, second = 5,
               microsecond = 0\<rparr>, ''AB12''))
      [(''records'', JArr
         [JObj [(''type'', JStr ''news''), (''data'', JObj [(''text'', JStr ''Fire'')])],
          JObj [(''type'', JStr ''news''),
                (''data'', JObj [(''text'', JStr ''Rain''), (''city'', JStr ''Oslo'')])]])]
    = Inr ([NewsRecord ''Rain''
              \<lparr>year = 2026, month = 11, day = 3, hour = 12, minute = 30, second = 5,
                microsecond = 0\<rparr> (JStr ''Oslo'')],
           [ProcessingError 1 (ValueError ''News record requires 'city' field''),
            Processed 2 ''news''])
   \<and> parse_xml_records
      (\<lambda>i. (\<lparr>year = 2026, month = 11, day = 3, hour = 12, minute = 30, second = 5,
               microsecond = 0\<rparr>, ''AB12''))
      (Element ''records'' [] None
         [Element ''record'' [(''type'', ''news'')] None
            [Element ''text'' [] (Some ''Fire'') []],
          Element ''record'' [(''type'', ''news'')] None
            [Element ''text'' [] (Some ''Rain'') [], Element ''city'' [] (Some ''Oslo'') []]])
    = Inr ([NewsRecord ''Rain''
              \<lparr>year = 2026, month = 11, day = 3, hour = 12, minute = 30, second = 5,
                microsecond = 0\<rparr> (JStr ''Oslo'')],
           [ProcessingError 1 (ValueError ''News record requires 'city' element with content''),
            Processed 2 ''news''])"
proof -
  let ?envs = "\<lambda>i::nat. (\<lparr>year = 2026, month = 11, day = 3, hour = 12, minute = 30, second = 5,
               microsecond = 0\<rparr>, ''AB12'')"
  let ?bad = "JObj [(''type'', JStr ''news''), (''data'', JObj [(''text'', JStr ''Fire'')])]"
  let ?good = "JObj [(''type'', JStr ''news''),
                (''data'', JObj [(''text'', JStr ''Rain''), (''city'', JStr ''Oslo'')])]"
  let ?xbad = "Element ''record'' [(''type'', ''news'')] None
            [Element ''text'' [] (Some ''Fire'') []]"
  let ?xgood = "Element ''record'' [(''type'', ''news'')] None
            [Element ''text'' [] (Some ''Rain'') [], Element ''city'' [] (Some ''Oslo'') []]"
  have lc: "py_lower ''news'' = ''news''"
    by (simp add: py_lower_def lower_char_def is_upper_def)
  have st: "py_strip ''Rain'' = ''Rain''" "py_strip ''Oslo'' = ''Oslo''"
    by (simp_all add: py_strip_def py_isspace_def)
  have jb: "json_entry (?envs (Suc 0)) ?bad = Inl (ValueError ''News record requires 'city' field'')"
    by (simp add: json_entry_def lower_value_def dict_get_def lc record_type_mapping_def
          from_json_data_def NewsRecord_from_json_data_def)
  have jg: "json_entry (?envs (Suc 1)) ?good
      = Inr (''news'', NewsRecord ''Rain'' (fst (?envs 2)) (JStr ''Oslo''))"
    by (simp add: json_entry_def lower_value_def dict_get_def lc record_type_mapping_def
          from_json_data_def NewsRecord_from_json_data_def NewsRecord_init_def strip_value_def st)
  have xb: "xml_entry (?envs (Suc 0)) ?xbad
      = Inl (ValueError ''News record requires 'city' element with content'')"
    by (simp add: xml_entry_def xml_get_def lc record_type_mapping_def
          from_xml_element_def NewsRecord_from_xml_element_def xml_find_def content_of_def)
  have xg: "xml_entry (?envs (Suc 1)) ?xgood
      = Inr (''news'', NewsRecord ''Rain'' (fst (?envs 2)) (JStr ''Oslo''))"
    by (simp add: xml_entry_def xml_get_def lc record_type_mapping_def
          from_xml_element_def NewsRecord_from_xml_element_def xml_find_def content_of_def
          NewsRecord_init_def strip_value_def st)
  have jh: "map_of [(''records'', JArr [?bad, ?good])] ''records'' = Some (JArr [?bad, ?good])
      \<and> 0 < length [?bad, ?good]
      \<and> json_entry (?envs (Suc 0)) ([?bad, ?good] ! 0)
          = Inl (ValueError ''News record requires 'city' field'')
      \<and> (\<forall>j<length [?bad, ?good]. j \<noteq> 0 \<longrightarrow>
            (\<exists>p. json_entry (?envs (Suc j)) ([?bad, ?good] ! j) = Inr p))"
    using jb jg by (auto simp: less_Suc_eq)
  have xh: "tag (Element ''records'' [] None [?xbad, ?xgood]) = ''records''
      \<and> xml_findall (Element ''records'' [] None [?xbad, ?xgood]) ''record'' = [?xbad, ?xgood]
      \<and> 0 < length [?xbad, ?xgood]
      \<and> xml_entry (?envs (Suc 0)) ([?xbad, ?xgood] ! 0)
          = Inl (ValueError ''News record requires 'city' element with content'')
      \<and> (\<forall>j<length [?xbad, ?xgood]. j \<noteq> 0 \<longrightarrow>
            (\<exists>p. xml_entry (?envs (Suc j)) ([?xbad, ?xgood] ! j) = Inr p))"
    using xb xg by (auto simp: less_Suc_eq xml_findall_def)
  from one_bad_record_is_skipped [of "[(''records'', JArr [?bad, ?good])]" "[?bad, ?good]" 0 ?envs
      "ValueError ''News record requires 'city' field''"
      "Element ''records'' [] None [?xbad, ?xgood]" "[?xbad, ?xgood]" 0
      "ValueError ''News record requires 'city' element with content''"]
    jh xh jg xg
  show ?thesis by (simp add: upt_conv_Cons)
qed

lemma record_type_mapping_None:
  "t \<notin> {''news'', ''private_ad'', ''weather_alert''} \<Longrightarrow> record_type_mapping t = None"
  by (simp add: record_type_mapping_def)


text \<open>
  Claim C7 as the source has it: both parsers put the tag in lower case before they look
  it up. An envelope whose tag in lower case is none of \<open>news\<close>, \<open>private_ad\<close>,
  \<open>weather_alert\<close> raises the KeyError of the lookup in \<open>record_type_mapping\<close> (the
  source's form of an unsupported type) and yields no record, as an entry of a collection
  and as a single envelope, in the JSON and in the XML parser.
\<close>

theorem unknown_tag_is_rejected:
  assumes "py_lower t \<notin> {''news'', ''private_ad'', ''weather_alert''}"
  shows "(dict_get d ''type'' (JStr []) = JStr t \<longrightarrow>
            json_entry env (JObj d) = Inl (KeyError (py_lower t)))
    \<and> (xml_get el ''type'' [] = t \<longrightarrow> xml_entry env el = Inl (KeyError (py_lower t)))
    \<and> (dict_get d ''type'' (JStr []) = JStr t \<and> map_of d ''records'' = None
           \<and> map_of d ''type'' \<noteq> None \<and> map_of d ''data'' \<noteq> None \<longrightarrow>
         parse_json_records envs d = Inr ([], [ProcessingErrorSingle (KeyError (py_lower t))]))
    \<and> (xml_get el ''type'' [] = t \<and> tag el = ''record'' \<longrightarrow>
         parse_xml_records envs el = Inr ([], [ProcessingErrorSingle (KeyError (py_lower t))]))"
  using record_type_mapping_None [OF assms]
  by (simp add: json_entry_def xml_entry_def lower_value_def parse_json_records_def
        parse_xml_records_def single_entry_def)

theorem unknown_tag_is_rejected_witness:
  "py_lower ''Blog'' \<notin> {''news'', ''private_ad'', ''weather_alert''}
   \<and> parse_json_records
        (\<lambda>i. (\<lparr>year = 2026, month = 11, day = 3, hour = 12, minute = 30, second = 5,
                 microsecond = 0\<rparr>, ''AB12''))
        [(''type'', JStr ''Blog''), (''data'', JObj [])]
       = Inr ([], [ProcessingErrorSingle (KeyError ''blog'')])
   \<and> parse_xml_records
        (\<lambda>i. (\<lparr>year = 2026, month = 11, day = 3, hour = 12, minute = 30, second = 5,
                 microsecond = 0\<rparr>, ''AB12''))
        (Element ''record'' [(''type'', ''Blog'')] None [])
       = Inr ([], [ProcessingErrorSingle (KeyError ''blog'')])"
proof -
  have lc: "py_lower ''Blog'' = ''blog''"
    by (simp add: py_lower_def lower_char_def is_upper_def char_of_def bit_0)
  have h: "py_lower ''Blog'' \<notin> {''news'', ''private_ad'', ''weather_alert''}"
    by (simp add: lc)
  from unknown_tag_is_rejected [OF h, where d = "[(''type'', JStr ''Blog''), (''data'', JObj [])]"
      and el = "Element ''record'' [(''type'', ''Blog'')] None []"
      and envs = "\<lambda>i. (\<lparr>year = 2026, month = 11, day = 3, hour = 12, minute = 30,
                 second = 5, microsecond = 0\<rparr>, ''AB12'')"] h
  show ?thesis by (simp add: lc dict_get_def xml_get_def)
qed

text \<open>
  Claim C7 as stated fails: the tag \<open>NEWS\<close> is none of the three supported tags, yet
  both parsers accept the envelope and build a News record.
\<close>

theorem upper_case_tag_is_accepted:
  "''NEWS'' \<notin> {''news'', ''private_ad'', ''weather_alert''}
   \<and> json_entry (\<lparr>year = 2026, month = 11, day = 3, hour = 12, minute = 30, second = 5,
                   microsecond = 0\<rparr>, ''AB12'')
        (JObj [(''type'', JStr ''NEWS''),
               (''data'', JObj [(''text'', JStr ''Fire''), (''city'', JStr ''Oslo'')])])
      = Inr (''news'', NewsRecord ''Fire''
               \<lparr>year = 2026, month = 11, day = 3, hour = 12, minute = 30, second = 5,
                 microsecond = 0\<rparr> (JStr ''Oslo''))
   \<and> xml_entry (\<lparr>year = 2026, month = 11, day = 3, hour = 12, minute = 30, second = 5,
                   microsecond = 0\<rparr>, ''AB12'')
        (Element ''record'' [(''type'', ''NEWS'')] None
           [Element ''text'' [] (Some ''Fire'') [], Element ''city'' [] (Some ''Oslo'') []])
      = Inr (''news'', NewsRecord ''Fire''
               \<lparr>year = 2026, month = 11, day = 3, hour = 12, minute = 30, second = 5,
                 microsecond = 0\<rparr> (JStr ''Oslo''))"
  by (simp add: json_entry_def lower_value_def dict_get_def py_lower_def lower_char_def
        is_upper_def char_of_def bit_0 record_type_mapping_def from_json_data_def NewsRecord_from_json_data_def
        NewsRecord_init_def strip_value_def py_strip_def py_isspace_def
        xml_entry_def xml_get_def from_xml_element_def NewsRecord_from_xml_element_def
        xml_find_def content_of_def)


subsection \<open>Days left of a private ad\<close>

lemma strptime_2099: "strptime (JStr ''2099-01-01'')
   = Inr \<lparr>year = 2099, month = 1, day = 1, hour = 0, minute = 0, second = 0, microsecond = 0\<rparr>"
  by (simp add: strptime_def year_field_def month_field_def day_field_def is_digit_def
        number_of_def digit_value_def days_in_month_def)

lemma strip_sale: "py_strip ''Sale'' = ''Sale''" "py_strip ''2099-01-01'' = ''2099-01-01''"
  by (simp_all add: py_strip_def py_isspace_def)

lemma delta_days_positive:
  "microseconds_of b + 86400000000 \<le> microseconds_of a \<Longrightarrow> 0 < delta_days a b"
  by (simp add: delta_days_def pos_imp_zdiv_pos_iff)


text \<open>
  Claim C8 as the source has it: parsing the markup input builds a PrivateAd record with
  text "Sale", expiration date "2099-01-01" and \<open>days_left = 0\<close>, since the
  constructor does not derive the days. They are derived when the record is rendered
  (\<open>format_for_publication\<close>) or its database data are requested
  (\<open>get_database_data\<close>): then \<open>days_left\<close> is strictly positive, provided the clock
  reads at least one day before 2099-01-01 00:00.
\<close>

theorem sale_ad_days_left_positive_once_derived:
  assumes "microseconds_of now + 86400000000
     \<le> microseconds_of \<lparr>year = 2099, month = 1, day = 1, hour = 0, minute = 0, second = 0,
                          microsecond = 0\<rparr>"
  shows "parse_xml_records envs
           (Element ''record'' [(''type'', ''private_ad'')] None
              [Element ''text'' [] (Some ''Sale'') [],
               Element ''expiration_date'' [] (Some ''2099-01-01'') []])
         = Inr ([PrivateAdRecord ''Sale'' (fst (envs 1)) (JStr ''2099-01-01'') None 0],
                [ProcessedSingle ''private_ad''])
    \<and> 0 < days_left (fst (snd (format_for_publication L now inp
              (PrivateAdRecord ''Sale'' ts (JStr ''2099-01-01'') None 0))))
    \<and> 0 < days_left (fst (get_database_data L now (Suc depth)
              (PrivateAdRecord ''Sale'' ts (JStr ''2099-01-01'') None 0)))"
proof (intro conjI)
  have lc: "py_lower ''private_ad'' = ''private_ad''"
    by (simp add: py_lower_def lower_char_def is_upper_def)
  show "parse_xml_records envs
           (Element ''record'' [(''type'', ''private_ad'')] None
              [Element ''text'' [] (Some ''Sale'') [],
               Element ''expiration_date'' [] (Some ''2099-01-01'') []])
         = Inr ([PrivateAdRecord ''Sale'' (fst (envs 1)) (JStr ''2099-01-01'') None 0],
                [ProcessedSingle ''private_ad''])"
    by (simp add: parse_xml_records_def single_entry_def xml_entry_def xml_get_def lc
          record_type_mapping_def from_xml_element_def PrivateAdRecord_from_xml_element_def
          xml_find_def content_of_def PrivateAdRecord_init_def strip_value_def strip_sale)
  have pos: "0 < delta_days \<lparr>year = 2099, month = 1, day = 1, hour = 0, minute = 0,
      second = 0, microsecond = 0\<rparr> now"
    using assms by (rule delta_days_positive)
  show "0 < days_left (fst (snd (format_for_publication L now inp
              (PrivateAdRecord ''Sale'' ts (JStr ''2099-01-01'') None 0))))"
    using pos
    by (simp add: format_for_publication_def needs_user_input_def get_user_input_def
          strptime_2099)
  have "ensure_expiration_parsed now (PrivateAdRecord ''Sale'' ts (JStr ''2099-01-01'') None 0)
      = Inr (PrivateAdRecord ''Sale'' ts (JStr ''2099-01-01'')
          (Some \<lparr>year = 2099, month = 1, day = 1, hour = 0, minute = 0,
             second = 0, microsecond = 0\<rparr>)
          (delta_days \<lparr>year = 2099, month = 1, day = 1, hour = 0, minute = 0,
             second = 0, microsecond = 0\<rparr> now))"
    by (simp add: ensure_expiration_parsed_def strptime_2099)
  from get_database_data_parses_first [OF this, of L depth] pos
  show "0 < days_left (fst (get_database_data L now (Suc depth)
              (PrivateAdRecord ''Sale'' ts (JStr ''2099-01-01'') None 0)))"
    by simp
qed

theorem sale_ad_days_left_positive_once_derived_witness:
  "microseconds_of \<lparr>year = 2026, month = 11, day = 3, hour = 12, minute = 30, second = 5,
          microsecond = 0\<rparr> + 86400000000
     \<le> microseconds_of \<lparr>year = 2099, month = 1, day = 1, hour = 0, minute = 0, second = 0,
                          microsecond = 0\<rparr>
   \<and> 0 < days_left (fst (snd (format_for_publication
              \<lparr>sha256_hexdigest = (\<lambda>s. s), repr_container = (\<lambda>v. [])\<rparr>
              \<lparr>year = 2026, month = 11, day = 3, hour = 12, minute = 30, second = 5,
                microsecond = 0\<rparr> []
              (PrivateAdRecord ''Sale''
                 \<lparr>year = 2026, month = 11, day = 3, hour = 12, minute = 0, second = 0,
                   microsecond = 0\<rparr> (JStr ''2099-01-01'') None 0))))
   \<and> 0 < days_left (fst (get_database_data
              \<lparr>sha256_hexdigest = (\<lambda>s. s), repr_container = (\<lambda>v. [])\<rparr>
              \<lparr>year = 2026, month = 11, day = 3, hour = 12, minute = 30, second = 5,
                microsecond = 0\<rparr> (Suc 0)
              (PrivateAdRecord ''Sale''
                 \<lparr>year = 2026, month = 11, day = 3, hour = 12, minute = 0, second = 0,
                   microsecond = 0\<rparr> (JStr ''2099-01-01'') None 0)))"
proof -
  have h: "microseconds_of \<lparr>year = 2026, month = 11, day = 3, hour = 12, minute = 30,
          second = 5, microsecond = 0\<rparr> + 86400000000
     \<le> microseconds_of \<lparr>year = 2099, month = 1, day = 1, hour = 0, minute = 0, second = 0,
                          microsecond = 0\<rparr>"
    by (simp add: microseconds_of_def toordinal_def days_before_year_def
          days_before_month_def days_in_month_def is_leap_def upt_conv_Cons)
  from h sale_ad_days_left_positive_once_derived [OF h] show ?thesis by blast
qed

text \<open>
  Claim C8 as stated fails: the record that parsing yields has \<open>days_left = 0\<close>, which
  is not strictly positive, although the clock reads 2026-11-03.
\<close>

theorem sale_ad_days_left_zero_after_parsing:
  "\<not> 0 < days_left (snd (projr (xml_entry
       (\<lparr>year = 2026, month = 11, day = 3, hour = 12, minute = 30, second = 5,
          microsecond = 0\<rparr>, ''AB12'')
       (Element ''record'' [(''type'', ''private_ad'')] None
              [Element ''text'' [] (Some ''Sale'') [],
               Element ''expiration_date'' [] (Some ''2099-01-01'') []]))))"
  by (simp add: xml_entry_def xml_get_def py_lower_def lower_char_def is_upper_def
          record_type_mapping_def from_xml_element_def PrivateAdRecord_from_xml_element_def
          xml_find_def content_of_def PrivateAdRecord_init_def strip_value_def strip_sale)


subsection \<open>The city coordinate table\<close>









text \<open>
  Claim C10: \<open>save_city_coordinates\<close> with a latitude outside \<open>[-90, 90]\<close> or a
  longitude outside \<open>[-180, 180]\<close> returns False and leaves the table as it is. With
  coordinates in range and a name that is already stored it returns True; afterwards
  exactly one row has that name, the new one, the other rows are unchanged, and the
  lookup of the name succeeds.
\<close>

theorem save_city_coordinates_validates_and_replaces:
  "(\<not> (- 90 \<le> lat \<and> lat \<le> 90) \<or> \<not> (- 180 \<le> lon \<and> lon \<le> 180)
      \<longrightarrow> save_city_coordinates db n lat lon c = (False, db))
   \<and> (- 90 \<le> lat \<and> lat \<le> 90 \<and> - 180 \<le> lon \<and> lon \<le> 180
        \<and> n \<in> name ` set (cities db)
      \<longrightarrow> fst (save_city_coordinates db n lat lon c) = True
        \<and> filter (\<lambda>rw. name rw = n) (cities (snd (save_city_coordinates db n lat lon c)))
            = [\<lparr>row_id = Suc (sequence db), name = n, latitude = lat, longitude = lon,
                 country = c\<rparr>]
        \<and> filter (\<lambda>rw. name rw \<noteq> n) (cities (snd (save_city_coordinates db n lat lon c)))
            = filter (\<lambda>rw. name rw \<noteq> n) (cities db)
        \<and> get_city_coordinates (snd (save_city_coordinates db n lat lon c)) n \<noteq> None)"
  by (auto simp: save_city_coordinates_def insert_or_replace_def get_city_coordinates_def
        find_None_iff filter_empty_conv split: option.splits)

theorem save_city_coordinates_validates_and_replaces_witness:
  "save_city_coordinates
      \<lparr>cities = [\<lparr>row_id = 1, name = ''London'', latitude = 51.5074, longitude = - 0.1278,
                   country = ''UK''\<rparr>], sequence = 1\<rparr> ''London'' 91 0 ''UK''
     = (False, \<lparr>cities = [\<lparr>row_id = 1, name = ''London'', latitude = 51.5074,
                   longitude = - 0.1278, country = ''UK''\<rparr>], sequence = 1\<rparr>)
   \<and> save_city_coordinates
      \<lparr>cities = [\<lparr>row_id = 1, name = ''London'', latitude = 51.5074, longitude = - 0.1278,
                   country = ''UK''\<rparr>], sequence = 1\<rparr> ''London'' 51.5 (- 0.12) ''England''
     = (True, \<lparr>cities = [\<lparr>row_id = 2, name = ''London'', latitude = 51.5,
                   longitude = - 0.12, country = ''England''\<rparr>], sequence = 2\<rparr>)"
proof -
  let ?db = "\<lparr>cities = [\<lparr>row_id = 1, name = ''London'', latitude = 51.5074,
      longitude = - 0.1278, country = ''UK''\<rparr>], sequence = 1\<rparr>"
  have out: "\<not> (- 90 \<le> (91::real) \<and> (91::real) \<le> 90) \<or> \<not> (- 180 \<le> (0::real) \<and> (0::real) \<le> 180)"
    by simp
  have inr: "- 90 \<le> (51.5::real) \<and> (51.5::real) \<le> 90 \<and> - 180 \<le> (- 0.12::real)
      \<and> (- 0.12::real) \<le> 180 \<and> ''London'' \<in> name ` set (cities ?db)"
    by simp
  from save_city_coordinates_validates_and_replaces [where lat = 91 and lon = 0 and db = ?db and n = "''London''" and c = "''UK''"] out
  have first: "save_city_coordinates ?db ''London'' 91 0 ''UK'' = (False, ?db)"
    by blast
  from save_city_coordinates_validates_and_replaces [where lat = "51.5" and lon = "- 0.12" and db = ?db and n = "''London''"
      and c = "''England''"] inr
  have "fst (save_city_coordinates ?db ''London'' 51.5 (- 0.12) ''England'') = True"
    by blast
  then have second: "save_city_coordinates ?db ''London'' 51.5 (- 0.12) ''England''
     = (True, \<lparr>cities = [\<lparr>row_id = 2, name = ''London'', latitude = 51.5,
                   longitude = - 0.12, country = ''England''\<rparr>], sequence = 2\<rparr>)"
    by (simp add: save_city_coordinates_def insert_or_replace_def split: if_splits)
  from first second show ?thesis by simp
qed

end
